theory Spec2Isabelle
  imports Main "HOL-Library.Word" "HOL-Library.Multiset"
begin

unbundle bit_operations_syntax

section \<open>JavaScript values used by the blockchain module\<close>

text \<open>
  A value thrown inside a \<^verbatim>\<open>try\<close> block is represented by its \<^verbatim>\<open>message\<close> property; the
  empty string also stands for a missing message, since the handlers only read it through
  \<^verbatim>\<open>error.message || default\<close> and both are falsy.
\<close>

type_synonym thrown = string

text \<open>The operator \<^verbatim>\<open>a || b\<close> on a string \<^verbatim>\<open>a\<close>: the empty string is falsy.\<close>

definition or_else :: "string \<Rightarrow> string \<Rightarrow> string" where
  "or_else a b = (if a = [] then b else a)"

section \<open>Connection health: \<^verbatim>\<open>checkBlockchainConnection\<close>\<close>

text \<open>
  The provider is given by what its two awaited calls do: \<^verbatim>\<open>provider.getNetwork()\<close>
  resolves to a network (of which only \<^verbatim>\<open>name\<close> is read) or throws, and
  \<^verbatim>\<open>provider.getBlockNumber()\<close> resolves to a number or throws.
\<close>

record provider =
  getNetwork :: "thrown + string"
  getBlockNumber :: "thrown + nat"

record connection_status =
  connected :: bool
  network :: "string option"
  blockNumber :: "nat option"
  error_c :: "string option"

definition connection_failed :: "thrown \<Rightarrow> connection_status" where
  "connection_failed e =
     \<lparr>connected = False, network = None, blockNumber = None,
      error_c = Some (or_else e ''Failed to connect to blockchain'')\<rparr>"

definition checkBlockchainConnection :: "provider \<Rightarrow> connection_status" where
  "checkBlockchainConnection p =
     (case getNetwork p of
        Inl e \<Rightarrow> connection_failed e
      | Inr nm \<Rightarrow>
          (case getBlockNumber p of
             Inl e \<Rightarrow> connection_failed e
           | Inr n \<Rightarrow> \<lparr>connected = True, network = Some nm, blockNumber = Some n,
                        error_c = None\<rparr>))"

section \<open>JSON values and \<^verbatim>\<open>JSON.stringify\<close>\<close>

text \<open>
  Strings are kept as their UTF-8 bytes (\<^typ>\<open>string\<close>), so a lone surrogate has no
  representation. Numbers cover the integers that a double holds exactly, written
  \<open>Finite\<close> and meant for the safe range up to \<open>2^53 - 1\<close> in magnitude, and the three
  non-finite doubles; negative zero is identified with zero, and fractions are not covered.
  A value is a JSON value or \<^verbatim>\<open>undefined\<close> (the property is absent).
\<close>

datatype jsnum = Finite int | PosInfinity | NegInfinity | NaN

datatype jsval = JUndefined | JNull | JBool bool | JNum jsnum | JStr string
  | JArr "jsval list" | JObj "(string \<times> jsval) list"

text \<open>
  An object is the list of its own properties in enumeration order. Reading a property
  that the object does not have yields \<^verbatim>\<open>undefined\<close>.
\<close>

type_synonym jsobject = "(string \<times> jsval) list"

definition getprop :: "jsobject \<Rightarrow> string \<Rightarrow> jsval" where
  "getprop obj k = (case map_of obj k of None \<Rightarrow> JUndefined | Some v \<Rightarrow> v)"

text \<open>
  The named properties of any value: those of an object. A primitive or an array has only
  index and \<^verbatim>\<open>length\<close> properties of its own, which nothing here reads, so reading one of
  the names used here from it yields \<^verbatim>\<open>undefined\<close>. (Reading from \<^verbatim>\<open>null\<close> or
  \<^verbatim>\<open>undefined\<close> throws; the handlers say where.)
\<close>

fun own_properties :: "jsval \<Rightarrow> jsobject" where
  "own_properties (JObj ps) = ps"
| "own_properties _ = []"

text \<open>Truthiness, as \<^verbatim>\<open>!v\<close> tests it.\<close>

fun truthy :: "jsval \<Rightarrow> bool" where
  "truthy JUndefined = False"
| "truthy JNull = False"
| "truthy (JBool b) = b"
| "truthy (JNum n) = (n \<noteq> Finite 0 \<and> n \<noteq> NaN)"
| "truthy (JStr s) = (s \<noteq> [])"
| "truthy (JArr xs) = True"
| "truthy (JObj ps) = True"

definition hex_digit :: "nat \<Rightarrow> char" where
  "hex_digit n = ''0123456789abcdef'' ! (n mod 16)"

definition lower_hex :: "char \<Rightarrow> bool" where
  "lower_hex c = (c \<in> set ''0123456789abcdef'')"

text \<open>
  \<^verbatim>\<open>QuoteJSONString\<close>: the two-character escapes, \<^verbatim>\<open>\u00XX\<close> for the other control
  characters, every other character unchanged.
\<close>

definition escape_char :: "char \<Rightarrow> string" where
  "escape_char c =
     (if c = CHR 0x08 then [CHR 0x5C, CHR ''b'']
      else if c = CHR 0x09 then [CHR 0x5C, CHR ''t'']
      else if c = CHR 0x0A then [CHR 0x5C, CHR ''n'']
      else if c = CHR 0x0C then [CHR 0x5C, CHR ''f'']
      else if c = CHR 0x0D then [CHR 0x5C, CHR ''r'']
      else if c = CHR 0x22 then [CHR 0x5C, CHR 0x22]
      else if c = CHR 0x5C then [CHR 0x5C, CHR 0x5C]
      else if of_char c < (32::nat) then
        [CHR 0x5C, CHR ''u'', CHR ''0'', CHR ''0'',
         hex_digit (of_char c div 16), hex_digit (of_char c mod 16)]
      else [c])"

definition quote :: "string \<Rightarrow> string" where
  "quote s = [CHR 0x22] @ concat (map escape_char s) @ [CHR 0x22]"

text \<open>\<^verbatim>\<open>Number::toString\<close> on an integer: base-10 digits, a minus sign when negative.\<close>

fun show_nat :: "nat \<Rightarrow> string" where
  "show_nat n = (if n < 10 then [hex_digit n] else show_nat (n div 10) @ [hex_digit (n mod 10)])"

declare show_nat.simps [simp del]

definition show_int :: "int \<Rightarrow> string" where
  "show_int i = (if i < 0 then CHR ''-'' # show_nat (nat (- i)) else show_nat (nat i))"

fun join_comma :: "string list \<Rightarrow> string" where
  "join_comma [] = []"
| "join_comma [x] = x"
| "join_comma (x # y # ys) = x @ '','' @ join_comma (y # ys)"

text \<open>
  \<^verbatim>\<open>SerializeJSONProperty\<close>: \<open>None\<close> for \<^verbatim>\<open>undefined\<close>, whose property
  \<^verbatim>\<open>JSON.stringify\<close> leaves out of an object and which it writes as \<^verbatim>\<open>null\<close> in an
  array; a number that is not finite becomes \<^verbatim>\<open>null\<close>.
\<close>

fun serialize_value :: "jsval \<Rightarrow> string option"
  and serialize_elements :: "jsval list \<Rightarrow> string list"
  and serialize_properties :: "jsobject \<Rightarrow> string list" where
  "serialize_value JUndefined = None"
| "serialize_value JNull = Some ''null''"
| "serialize_value (JBool b) = Some (if b then ''true'' else ''false'')"
| "serialize_value (JNum (Finite i)) = Some (show_int i)"
| "serialize_value (JNum _) = Some ''null''"
| "serialize_value (JStr s) = Some (quote s)"
| "serialize_value (JArr xs) = Some (''['' @ join_comma (serialize_elements xs) @ '']'')"
| "serialize_value (JObj ps) = Some (''{'' @ join_comma (serialize_properties ps) @ ''}'')"
| "serialize_elements [] = []"
| "serialize_elements (x # xs) =
     (case serialize_value x of None \<Rightarrow> ''null'' | Some t \<Rightarrow> t) # serialize_elements xs"
| "serialize_properties [] = []"
| "serialize_properties ((k, v) # ps) =
     (case serialize_value v of
        None \<Rightarrow> serialize_properties ps
      | Some t \<Rightarrow> (quote k @ '':'' @ t) # serialize_properties ps)"

definition JSON_stringify :: "jsobject \<Rightarrow> string" where
  "JSON_stringify obj = ''{'' @ join_comma (serialize_properties obj) @ ''}''"

section \<open>Fingerprint derivation: \<^verbatim>\<open>generateCertificateHash\<close>\<close>

type_synonym byte = "8 word"

definition toUtf8Bytes :: "string \<Rightarrow> byte list" where
  "toUtf8Bytes s = map (\<lambda>c. of_nat (of_char c)) s"

text \<open>\<^verbatim>\<open>ethers.hexlify\<close>: two lowercase hexadecimal digits for each byte after \<^verbatim>\<open>0x\<close>.\<close>

definition hexlify :: "byte list \<Rightarrow> string" where
  "hexlify bs =
     ''0x'' @ concat (map (\<lambda>v. [hex_digit (unat v div 16), hex_digit (unat v mod 16)]) bs)"

text \<open>
  \<^verbatim>\<open>ethers.keccak256\<close> is the hexlified digest of the bytes. The Keccak-256 permutation is
  library code; it enters as the parameter \<open>kec\<close>, the function from the message bytes to
  the digest bytes.
\<close>

definition keccak256 :: "(byte list \<Rightarrow> byte list) \<Rightarrow> byte list \<Rightarrow> string" where
  "keccak256 kec bs = hexlify (kec bs)"

definition dataString :: "jsobject \<Rightarrow> string" where
  "dataString certificateData =
     JSON_stringify
       [(''certificateNumber'', getprop certificateData ''certificateNumber''),
        (''recipientName'', getprop certificateData ''recipientName''),
        (''certificateType'', getprop certificateData ''certificateType''),
        (''issueDate'', getprop certificateData ''issueDate''),
        (''issuingEntityId'', getprop certificateData ''issuingEntityId'')]"

definition generateCertificateHash :: "(byte list \<Rightarrow> byte list) \<Rightarrow> jsobject \<Rightarrow> string" where
  "generateCertificateHash kec certificateData =
     keccak256 kec (toUtf8Bytes (dataString certificateData))"

text \<open>
  The concrete instances further down need some function in the place of Keccak-256. They
  use this one, which returns 32 bytes, the last of them the length of the message, and
  is otherwise arbitrary.
\<close>

definition length_digest :: "byte list \<Rightarrow> byte list" where
  "length_digest bs = replicate 31 0xAB @ [of_nat (length bs)]"

text \<open>The record of the usage example in the setup guide.\<close>

definition certificateData_example :: jsobject where
  "certificateData_example =
     [(''certificateNumber'', JStr ''CERT-2025-ABC123''),
      (''recipientName'', JStr ''John Doe''),
      (''certificateType'', JStr ''Achievement''),
      (''issueDate'', JStr ''2025-01-15''),
      (''issuingEntityId'', JNum (Finite 1))]"

definition ZeroHash :: string where
  "ZeroHash = ''0x'' @ replicate 64 CHR ''0''"

section \<open>Ledger calls: \<^verbatim>\<open>storeCertificateOnBlockchain\<close>, \<^verbatim>\<open>verifyCertificateOnBlockchain\<close>\<close>

text \<open>
  The contract is reached through two awaited calls. \<open>send k h\<close> is the outcome of
  building the signer and the contract, \<^verbatim>\<open>contract.storeCertificate(k, h)\<close> and
  \<^verbatim>\<open>tx.wait()\<close>: the receipt's hash, or what was thrown on the way. \<open>call k\<close> is the
  outcome of \<^verbatim>\<open>contract.verifyCertificate(k)\<close>: the triple of hash, timestamp and issuer,
  or what was thrown. The key \<open>k\<close> is whatever value the caller passes on; the declared
  type is a string.
\<close>

type_synonym send_fn = "jsval \<Rightarrow> string \<Rightarrow> thrown + string"
type_synonym call_fn = "jsval \<Rightarrow> thrown + (string \<times> nat \<times> string)"

record store_result =
  success_s :: bool
  transactionHash :: "string option"
  error_s :: "string option"

definition startsWith0x :: "string \<Rightarrow> bool" where
  "startsWith0x s = (take 2 s = ''0x'')"

definition storeCertificateOnBlockchain :: "send_fn \<Rightarrow> jsval \<Rightarrow> string \<Rightarrow> store_result" where
  "storeCertificateOnBlockchain send certificateNumber certificateHash =
     (let hashBytes32 = (if startsWith0x certificateHash then certificateHash
                         else ''0x'' @ certificateHash)
      in case send certificateNumber hashBytes32 of
           Inr receipt_hash \<Rightarrow>
             \<lparr>success_s = True, transactionHash = Some receipt_hash, error_s = None\<rparr>
         | Inl e \<Rightarrow>
             \<lparr>success_s = False, transactionHash = None,
              error_s = Some (or_else e ''Failed to store certificate on blockchain'')\<rparr>)"

record verify_result =
  success_v :: bool
  verified :: bool
  blockchainHash :: "string option"
  timestamp :: "nat option"
  issuer :: "string option"
  error_v :: "string option"

definition verifyCertificateOnBlockchain :: "call_fn \<Rightarrow> jsval \<Rightarrow> verify_result" where
  "verifyCertificateOnBlockchain call certificateNumber =
     (case call certificateNumber of
        Inr (hash, ts, iss) \<Rightarrow>
          (let v = (hash \<noteq> ZeroHash)
           in \<lparr>success_v = True, verified = v,
               blockchainHash = (if v then Some hash else None),
               timestamp = (if v then Some ts else None),
               issuer = (if v then Some iss else None),
               error_v = None\<rparr>)
      | Inl e \<Rightarrow>
          \<lparr>success_v = False, verified = False, blockchainHash = None, timestamp = None,
           issuer = None,
           error_v = Some (or_else e ''Failed to verify certificate on blockchain'')\<rparr>)"

section \<open>Route handlers\<close>

text \<open>
  A request is what \<^verbatim>\<open>request.json()\<close> gives: the parsed body, which is any JSON value,
  or what it throws. A response is the status and the JSON payload; a property that is
  \<^verbatim>\<open>undefined\<close> in the payload is \<open>None\<close>.
\<close>

text \<open>
  The destructuring \<^verbatim>\<open>const { certificateNumber, certificateData } = body\<close> throws a
  \<^verbatim>\<open>TypeError\<close> when the body is \<^verbatim>\<open>null\<close>; this is its message in V8.
\<close>

definition destructure_message :: "jsval \<Rightarrow> string" where
  "destructure_message body =
     ''Cannot destructure property '' @ [CHR 0x27] @ ''certificateNumber'' @ [CHR 0x27] @
     '' of '' @ [CHR 0x27] @ ''body'' @ [CHR 0x27] @ '' as it is '' @
     (if body = JNull then ''null'' else ''undefined'') @ ''.''"

text \<open>The request whose body is the object with the two properties \<open>k\<close> and \<open>d\<close>.\<close>

definition json_request :: "jsval \<Rightarrow> jsval \<Rightarrow> thrown + jsval" where
  "json_request k d = Inr (JObj [(''certificateNumber'', k), (''certificateData'', d)])"

record 'd response =
  status :: nat
  success :: bool
  message :: string
  data :: "'d option"

record store_data =
  certificateHash_d :: string
  transactionHash_d :: "string option"

record verify_data =
  verified_d :: bool
  hashMatch :: bool
  localHash :: "string option"
  blockchainHash_d :: "string option"
  timestamp_d :: "nat option"
  issuer_d :: "string option"

definition opt_string :: "string option \<Rightarrow> string" where
  "opt_string s = (case s of None \<Rightarrow> [] | Some t \<Rightarrow> t)"

definition failure :: "nat \<Rightarrow> string \<Rightarrow> 'd response" where
  "failure code msg = \<lparr>status = code, success = False, message = msg, data = None\<rparr>"

text \<open>\<^verbatim>\<open>POST /api/blockchain/store\<close>.\<close>

definition POST_store ::
  "(byte list \<Rightarrow> byte list) \<Rightarrow> send_fn \<Rightarrow> thrown + jsval \<Rightarrow> store_data response" where
  "POST_store kec send request =
     (case request of
        Inl e \<Rightarrow> failure 500 (or_else e ''Internal server error'')
      | Inr body \<Rightarrow>
          if body = JNull \<or> body = JUndefined then
            failure 500 (or_else (destructure_message body) ''Internal server error'')
          else
            (let certificateNumber = getprop (own_properties body) ''certificateNumber'';
                 certificateData = getprop (own_properties body) ''certificateData''
             in if \<not> truthy certificateNumber \<or> \<not> truthy certificateData then
                  failure 400 ''Certificate number and data are required''
                else
                  (let certificateHash =
                         generateCertificateHash kec (own_properties certificateData);
                       result = storeCertificateOnBlockchain send certificateNumber
                                  certificateHash
                   in if \<not> success_s result then
                        failure 500 (or_else (opt_string (error_s result))
                                             ''Failed to store on blockchain'')
                      else
                        \<lparr>status = 200, success = True,
                         message = ''Certificate stored on blockchain successfully'',
                         data = Some \<lparr>certificateHash_d = certificateHash,
                                      transactionHash_d = transactionHash result\<rparr>\<rparr>)))"

text \<open>
  \<^verbatim>\<open>GET /api/blockchain/verify?certificateNumber=...\<close>. The argument is what
  \<^verbatim>\<open>searchParams.get\<close> returns: the parameter, or \<open>None\<close> for \<^verbatim>\<open>null\<close>.
\<close>

record exists_data =
  verified_e :: bool
  blockchainHash_e :: "string option"
  timestamp_e :: "nat option"
  issuer_e :: "string option"

definition GET_verify :: "call_fn \<Rightarrow> string option \<Rightarrow> exists_data response" where
  "GET_verify call param =
     (case param of
        None \<Rightarrow> failure 400 ''Certificate number is required''
      | Some k \<Rightarrow>
          if k = [] then failure 400 ''Certificate number is required''
          else
            (let result = verifyCertificateOnBlockchain call (JStr k)
             in if \<not> success_v result then
                  failure 500 (or_else (opt_string (error_v result))
                                       ''Failed to verify on blockchain'')
                else
                  \<lparr>status = 200, success = True,
                   message = (if verified result then ''Certificate verified on blockchain''
                              else ''Certificate not found on blockchain''),
                   data = Some \<lparr>verified_e = verified result,
                                blockchainHash_e = blockchainHash result,
                                timestamp_e = timestamp result,
                                issuer_e = issuer result\<rparr>\<rparr>))"

text \<open>\<^verbatim>\<open>POST /api/blockchain/verify\<close>.\<close>

definition POST_verify ::
  "(byte list \<Rightarrow> byte list) \<Rightarrow> call_fn \<Rightarrow> thrown + jsval \<Rightarrow> verify_data response" where
  "POST_verify kec call request =
     (case request of
        Inl e \<Rightarrow> failure 500 (or_else e ''Internal server error'')
      | Inr body \<Rightarrow>
          if body = JNull \<or> body = JUndefined then
            failure 500 (or_else (destructure_message body) ''Internal server error'')
          else
            (let certificateNumber = getprop (own_properties body) ''certificateNumber'';
                 certificateData = getprop (own_properties body) ''certificateData''
             in if \<not> truthy certificateNumber \<or> \<not> truthy certificateData then
                  failure 400 ''Certificate number and data are required''
                else
                  (let localHash = generateCertificateHash kec (own_properties certificateData);
                       blockchainResult = verifyCertificateOnBlockchain call certificateNumber
                   in if \<not> success_v blockchainResult then
                        failure 500 (or_else (opt_string (error_v blockchainResult))
                                             ''Failed to verify on blockchain'')
                      else if \<not> verified blockchainResult then
                        \<lparr>status = 200, success = True,
                         message = ''Certificate not found on blockchain'',
                         data = Some \<lparr>verified_d = False, hashMatch = False,
                                      localHash = None, blockchainHash_d = None,
                                      timestamp_d = None, issuer_d = None\<rparr>\<rparr>
                      else
                        (let hashMatch = (Some localHash = blockchainHash blockchainResult)
                         in \<lparr>status = 200, success = True,
                             message =
                               (if hashMatch then ''Certificate verified and hash matches''
                                else ''Certificate found but hash mismatch''),
                             data = Some \<lparr>verified_d = verified blockchainResult,
                                          hashMatch = hashMatch,
                                          localHash = Some localHash,
                                          blockchainHash_d = blockchainHash blockchainResult,
                                          timestamp_d = timestamp blockchainResult,
                                          issuer_d = issuer blockchainResult\<rparr>\<rparr>))))"

section \<open>Ledger behaviours for the concrete instances\<close>

text \<open>
  Three behaviours of the ledger calls, used where a statement is evaluated on concrete
  input: a ledger that accepts every write, one whose write throws with a given message,
  and one whose query returns a given hash for every key.
\<close>

definition send_accepting :: send_fn where
  "send_accepting k h = Inr ''0x7a''"

definition send_failing :: "string \<Rightarrow> send_fn" where
  "send_failing m k h = Inl m"

definition ledger_holding :: "string \<Rightarrow> call_fn" where
  "ledger_holding h k = Inr (h, 1736899200, ''0x00000000000000000000000000000000000000a1'')"



text \<open>The example record with another value of \<^verbatim>\<open>issuingEntityId\<close>.\<close>

definition with_entity :: "jsnum \<Rightarrow> jsobject" where
  "with_entity n =
     [(''certificateNumber'', JStr ''CERT-2025-ABC123''),
      (''recipientName'', JStr ''John Doe''),
      (''certificateType'', JStr ''Achievement''),
      (''issueDate'', JStr ''2025-01-15''),
      (''issuingEntityId'', JNum n)]"

section \<open>Records of the declared type\<close>

text \<open>
  The parameter type of \<^verbatim>\<open>generateCertificateHash\<close> declares four strings and a number.
  \<open>typed_record\<close> says that an object has these five fields with these types and that
  the number is a safe integer (\<^verbatim>\<open>Number.isSafeInteger\<close>), which \<^verbatim>\<open>JSON.stringify\<close> writes in
  base-10 digits; \<open>same_fields\<close> says that two objects agree on the five fields.
\<close>

fun is_string :: "jsval \<Rightarrow> bool" where
  "is_string (JStr s) = True"
| "is_string _ = False"

fun is_safe_integer :: "jsval \<Rightarrow> bool" where
  "is_safe_integer (JNum (Finite i)) = (\<bar>i\<bar> \<le> 9007199254740991)"
| "is_safe_integer _ = False"

definition typed_record :: "jsobject \<Rightarrow> bool" where
  "typed_record obj =
     (is_string (getprop obj ''certificateNumber'') \<and>
      is_string (getprop obj ''recipientName'') \<and>
      is_string (getprop obj ''certificateType'') \<and>
      is_string (getprop obj ''issueDate'') \<and>
      is_safe_integer (getprop obj ''issuingEntityId''))"

definition same_fields :: "jsobject \<Rightarrow> jsobject \<Rightarrow> bool" where
  "same_fields A B =
     (getprop A ''certificateNumber'' = getprop B ''certificateNumber'' \<and>
      getprop A ''recipientName'' = getprop B ''recipientName'' \<and>
      getprop A ''certificateType'' = getprop B ''certificateType'' \<and>
      getprop A ''issueDate'' = getprop B ''issueDate'' \<and>
      getprop A ''issuingEntityId'' = getprop B ''issuingEntityId'')"

text \<open>Reading a decimal numeral back, the inverse of \<open>show_nat\<close> from accumulator 0.\<close>

fun read_nat :: "nat \<Rightarrow> string \<Rightarrow> nat" where
  "read_nat a [] = a"
| "read_nat a (c # cs) = read_nat (10 * a + (of_char c - 48)) cs"

section \<open>Properties of the health check\<close>

text \<open>
  Claim C8. The health check returns a status for every outcome of the two provider calls.
  When both calls resolve, the status is connected and carries the network name and the
  block height and no error. When either call throws, the status is not connected, carries
  neither network nor height, and its error field holds a non-empty description: the thrown
  message, or the default text when the message is empty.
\<close>

theorem checkBlockchainConnection_never_fails:
  "(\<forall>nm n. getNetwork p = Inr nm \<and> getBlockNumber p = Inr n \<longrightarrow>
      checkBlockchainConnection p =
        \<lparr>connected = True, network = Some nm, blockNumber = Some n, error_c = None\<rparr>) \<and>
   ((\<exists>e. getNetwork p = Inl e) \<or> (\<exists>e. getBlockNumber p = Inl e) \<longrightarrow>
      (\<exists>d. d \<noteq> [] \<and> checkBlockchainConnection p =
        \<lparr>connected = False, network = None, blockNumber = None, error_c = Some d\<rparr>)) \<and>
   (\<forall>e. getNetwork p = Inl e \<and> e \<noteq> [] \<longrightarrow>
      error_c (checkBlockchainConnection p) = Some e) \<and>
   (\<forall>nm e. getNetwork p = Inr nm \<and> getBlockNumber p = Inl e \<and> e \<noteq> [] \<longrightarrow>
      error_c (checkBlockchainConnection p) = Some e)"
  by (auto simp: checkBlockchainConnection_def connection_failed_def or_else_def
           split: sum.splits)

theorem checkBlockchainConnection_never_fails_witness:
  "checkBlockchainConnection \<lparr>getNetwork = Inr ''sepolia'', getBlockNumber = Inr 7\<rparr> =
     \<lparr>connected = True, network = Some ''sepolia'', blockNumber = Some 7, error_c = None\<rparr> \<and>
   error_c (checkBlockchainConnection
     \<lparr>getNetwork = Inl ''timeout'', getBlockNumber = Inr 7\<rparr>) = Some ''timeout'' \<and>
   error_c (checkBlockchainConnection
     \<lparr>getNetwork = Inr ''sepolia'', getBlockNumber = Inl ''no block''\<rparr>) = Some ''no block''"
  using checkBlockchainConnection_never_fails
          [of "\<lparr>getNetwork = Inr ''sepolia'', getBlockNumber = Inr 7\<rparr>"]
        checkBlockchainConnection_never_fails
          [of "\<lparr>getNetwork = Inl ''timeout'', getBlockNumber = Inr 7\<rparr>"]
        checkBlockchainConnection_never_fails
          [of "\<lparr>getNetwork = Inr ''sepolia'', getBlockNumber = Inl ''no block''\<rparr>"]
  by simp

section \<open>Properties of the fingerprint\<close>

lemma hex_digit_lower: "lower_hex (hex_digit n)"
proof -
  have "n mod 16 < length ''0123456789abcdef''" by simp
  then show ?thesis unfolding hex_digit_def lower_hex_def by (rule nth_mem)
qed

lemma length_hexlify: "length (hexlify bs) = 2 + 2 * length bs"
  by (induction bs) (simp_all add: hexlify_def)

lemma take2_hexlify: "take 2 (hexlify bs) = ''0x''"
  by (simp add: hexlify_def)

lemma drop2_hexlify_lower: "list_all lower_hex (drop 2 (hexlify bs))"
proof (induction bs)
  case Nil
  show ?case by (simp add: hexlify_def)
next
  case (Cons b bs)
  have "drop 2 (hexlify (b # bs)) =
          hex_digit (unat b div 16) # hex_digit (unat b mod 16) # drop 2 (hexlify bs)"
    by (simp add: hexlify_def)
  with Cons hex_digit_lower [of "unat b div 16"] hex_digit_lower [of "unat b mod 16"]
  show ?case by simp
qed

text \<open>
  Claim C6. When the digest function returns 32 bytes, as Keccak-256 does, the fingerprint
  of every record is a string of exactly 66 characters: the prefix \<^verbatim>\<open>0x\<close> followed by 64
  characters that are all lowercase hexadecimal digits.
\<close>

theorem generateCertificateHash_encoding:
  assumes "length (kec (toUtf8Bytes (dataString R))) = 32"
  shows "length (generateCertificateHash kec R) = 66 \<and>
         take 2 (generateCertificateHash kec R) = ''0x'' \<and>
         list_all lower_hex (drop 2 (generateCertificateHash kec R))"
  using assms
  by (simp add: generateCertificateHash_def keccak256_def length_hexlify take2_hexlify
                drop2_hexlify_lower)

theorem generateCertificateHash_encoding_witness:
  "length (length_digest
             (toUtf8Bytes (dataString certificateData_example))) = 32 \<and>
   length (generateCertificateHash length_digest
             certificateData_example) = 66 \<and>
   take 2 (generateCertificateHash length_digest
             certificateData_example) = ''0x'' \<and>
   list_all lower_hex
     (drop 2 (generateCertificateHash length_digest
                certificateData_example))"
proof -
  have h: "length (length_digest (toUtf8Bytes (dataString certificateData_example))) = 32"
    by (simp add: length_digest_def)
  from generateCertificateHash_encoding [of length_digest certificateData_example] h
  show ?thesis by simp
qed

lemma getprop_permuted:
  assumes "distinct (map fst R)" and "mset R' = mset R"
  shows "getprop R' k = getprop R k"
proof -
  have "mset (map fst R') = mset (map fst R)" using assms(2) by simp
  then have d: "distinct (map fst R')" using assms(1) by (metis mset_eq_imp_distinct_iff)
  have "set R' = set R" using assms(2) by (rule mset_eq_setD)
  with d assms(1) have "map_of R' = map_of R" by (simp add: map_of_inject_set)
  then show ?thesis by (simp add: getprop_def)
qed

lemma dataString_cong:
  assumes "getprop A ''certificateNumber'' = getprop B ''certificateNumber''"
    and "getprop A ''recipientName'' = getprop B ''recipientName''"
    and "getprop A ''certificateType'' = getprop B ''certificateType''"
    and "getprop A ''issueDate'' = getprop B ''issueDate''"
    and "getprop A ''issuingEntityId'' = getprop B ''issuingEntityId''"
  shows "dataString A = dataString B"
  unfolding dataString_def using assms by simp

text \<open>
  Claim C2. Two objects with the same properties, listed in any two orders, derive the same
  fingerprint: the derivation reads the five fields by name and serialises them in its own
  fixed order. (An object has each property name once.)
\<close>

theorem generateCertificateHash_field_order:
  assumes "distinct (map fst R)" and "mset R' = mset R"
  shows "generateCertificateHash kec R' = generateCertificateHash kec R"
proof -
  have "dataString R' = dataString R"
    by (rule dataString_cong) (rule getprop_permuted [OF assms])+
  then show ?thesis by (simp add: generateCertificateHash_def)
qed

theorem generateCertificateHash_field_order_witness:
  "distinct (map fst certificateData_example) \<and>
   mset (rev certificateData_example) = mset certificateData_example \<and>
   rev certificateData_example \<noteq> certificateData_example \<and>
   generateCertificateHash length_digest
     (rev certificateData_example) =
   generateCertificateHash length_digest
     certificateData_example"
proof -
  have d: "distinct (map fst certificateData_example)"
    by (simp add: certificateData_example_def)
  have m: "mset (rev certificateData_example) = mset certificateData_example"
    by simp
  have n: "rev certificateData_example \<noteq> certificateData_example"
    by (simp add: certificateData_example_def)
  from generateCertificateHash_field_order
         [of certificateData_example "rev certificateData_example" length_digest] d m n
  show ?thesis by blast
qed

text \<open>
  Claim C9. The fingerprint depends on the five named fields only: two objects that agree
  on \<^verbatim>\<open>certificateNumber\<close>, \<^verbatim>\<open>recipientName\<close>, \<^verbatim>\<open>certificateType\<close>, \<^verbatim>\<open>issueDate\<close> and
  \<^verbatim>\<open>issuingEntityId\<close> derive the same fingerprint, whatever other properties either carries.
\<close>

theorem generateCertificateHash_five_fields_only:
  assumes "getprop A ''certificateNumber'' = getprop B ''certificateNumber''"
    and "getprop A ''recipientName'' = getprop B ''recipientName''"
    and "getprop A ''certificateType'' = getprop B ''certificateType''"
    and "getprop A ''issueDate'' = getprop B ''issueDate''"
    and "getprop A ''issuingEntityId'' = getprop B ''issuingEntityId''"
  shows "generateCertificateHash kec A = generateCertificateHash kec B"
  using dataString_cong [OF assms] by (simp add: generateCertificateHash_def)

theorem generateCertificateHash_five_fields_only_witness:
  "generateCertificateHash length_digest
     ((''notes'', JStr ''internal'') # certificateData_example @ [(''revoked'', JBool False)]) =
   generateCertificateHash length_digest
     certificateData_example"
  by (rule generateCertificateHash_five_fields_only)
     (simp_all add: getprop_def certificateData_example_def)

section \<open>Properties of verification\<close>

lemma verify_absent:
  "call (JStr k) = Inr (ZeroHash, ts, iss) \<Longrightarrow>
   verifyCertificateOnBlockchain call (JStr k) =
     \<lparr>success_v = True, verified = False, blockchainHash = None, timestamp = None,
      issuer = None, error_v = None\<rparr>"
  by (simp add: verifyCertificateOnBlockchain_def)

text \<open>
  Claim C10. When the ledger holds no record for the key, that is the query returns the
  all-zero hash, the match handler answers with status 200 and the data
  \<^verbatim>\<open>{verified: false, hashMatch: false}\<close> and nothing else: no local or ledger fingerprint,
  no timestamp, no issuer. The answer is the same for every record supplied and does not
  depend on the digest function, so no fingerprint is compared.
\<close>

theorem POST_verify_not_anchored:
  assumes "k \<noteq> []" and "call (JStr k) = Inr (ZeroHash, ts, iss)"
  shows "POST_verify kec call (json_request (JStr k) (JObj R)) =
           \<lparr>status = 200, success = True, message = ''Certificate not found on blockchain'',
            data = Some \<lparr>verified_d = False, hashMatch = False, localHash = None,
                         blockchainHash_d = None, timestamp_d = None, issuer_d = None\<rparr>\<rparr>"
  using assms by (simp add: POST_verify_def json_request_def getprop_def verify_absent)

theorem POST_verify_not_anchored_witness:
  "POST_verify length_digest
     (\<lambda>k. Inr (ZeroHash, 0, ''0x0000000000000000000000000000000000000000''))
     (json_request (JStr ''CERT-2025-ABC123'') (JObj certificateData_example)) =
   \<lparr>status = 200, success = True, message = ''Certificate not found on blockchain'',
    data = Some \<lparr>verified_d = False, hashMatch = False, localHash = None,
                 blockchainHash_d = None, timestamp_d = None, issuer_d = None\<rparr>\<rparr>"
  by (rule POST_verify_not_anchored) simp_all

text \<open>
  Claim C4. A key that was never anchored, for which the ledger query returns the all-zero
  hash, gives a normal verdict and not an error: \<^verbatim>\<open>verifyCertificateOnBlockchain\<close> returns
  success with \<^verbatim>\<open>verified: false\<close>, and for a non-empty key both the existence handler and
  the match handler answer with status 200, success and \<^verbatim>\<open>verified: false\<close>. The library
  function reports failure exactly when the ledger query throws, and for a non-empty key
  each handler answers 500 exactly when the ledger query throws.
\<close>

theorem not_anchored_is_not_an_error:
  "(call (JStr k) = Inr (ZeroHash, ts, iss) \<longrightarrow>
      verifyCertificateOnBlockchain call (JStr k) =
        \<lparr>success_v = True, verified = False, blockchainHash = None, timestamp = None,
         issuer = None, error_v = None\<rparr>) \<and>
   (k \<noteq> [] \<and> call (JStr k) = Inr (ZeroHash, ts, iss) \<longrightarrow>
      GET_verify call (Some k) =
        \<lparr>status = 200, success = True, message = ''Certificate not found on blockchain'',
         data = Some \<lparr>verified_e = False, blockchainHash_e = None, timestamp_e = None,
                      issuer_e = None\<rparr>\<rparr> \<and>
      POST_verify kec call (json_request (JStr k) (JObj R)) =
        \<lparr>status = 200, success = True, message = ''Certificate not found on blockchain'',
         data = Some \<lparr>verified_d = False, hashMatch = False, localHash = None,
                      blockchainHash_d = None, timestamp_d = None, issuer_d = None\<rparr>\<rparr>) \<and>
   (\<not> success_v (verifyCertificateOnBlockchain call (JStr k)) \<longleftrightarrow> (\<exists>e. call (JStr k) = Inl e)) \<and>
   (k \<noteq> [] \<longrightarrow>
      (status (GET_verify call (Some k)) = 500 \<longleftrightarrow> (\<exists>e. call (JStr k) = Inl e)) \<and>
      (status (POST_verify kec call
                 (json_request (JStr k) (JObj R))) = 500 \<longleftrightarrow>
         (\<exists>e. call (JStr k) = Inl e)) \<and>
      (\<not> success (POST_verify kec call
                 (json_request (JStr k) (JObj R))) \<longleftrightarrow>
         (\<exists>e. call (JStr k) = Inl e)))"
  by (cases "call (JStr k)")
     (auto simp: verifyCertificateOnBlockchain_def GET_verify_def POST_verify_def json_request_def getprop_def failure_def
                 Let_def)

theorem not_anchored_is_not_an_error_witness:
  "verifyCertificateOnBlockchain
     (\<lambda>k. if k = JStr ''CERT-DOWN'' then Inl ''network down''
           else Inr (ZeroHash, 0, ''0x0000000000000000000000000000000000000000''))
     (JStr ''CERT-2025-ABC123'') =
     \<lparr>success_v = True, verified = False, blockchainHash = None, timestamp = None,
      issuer = None, error_v = None\<rparr> \<and>
   status (GET_verify
     (\<lambda>k. if k = JStr ''CERT-DOWN'' then Inl ''network down''
           else Inr (ZeroHash, 0, ''0x0000000000000000000000000000000000000000''))
     (Some ''CERT-2025-ABC123'')) = 200 \<and>
   status (POST_verify length_digest
     (\<lambda>k. if k = JStr ''CERT-DOWN'' then Inl ''network down''
           else Inr (ZeroHash, 0, ''0x0000000000000000000000000000000000000000''))
     (json_request (JStr ''CERT-2025-ABC123'') (JObj certificateData_example))) = 200 \<and>
   \<not> success_v (verifyCertificateOnBlockchain
     (\<lambda>k. if k = JStr ''CERT-DOWN'' then Inl ''network down''
           else Inr (ZeroHash, 0, ''0x0000000000000000000000000000000000000000''))
     (JStr ''CERT-DOWN'')) \<and>
   status (POST_verify length_digest
     (\<lambda>k. if k = JStr ''CERT-DOWN'' then Inl ''network down''
           else Inr (ZeroHash, 0, ''0x0000000000000000000000000000000000000000''))
     (json_request (JStr ''CERT-DOWN'') (JObj certificateData_example))) = 500"
  using not_anchored_is_not_an_error
          [of "\<lambda>k. if k = JStr ''CERT-DOWN'' then Inl ''network down''
                    else Inr (ZeroHash, 0, ''0x0000000000000000000000000000000000000000'')"
              "''CERT-2025-ABC123''" 0 "''0x0000000000000000000000000000000000000000''"
              length_digest certificateData_example]
        not_anchored_is_not_an_error
          [of "\<lambda>k. if k = JStr ''CERT-DOWN'' then Inl ''network down''
                    else Inr (ZeroHash, 0, ''0x0000000000000000000000000000000000000000'')"
              "''CERT-DOWN''" 0 "''0x0000000000000000000000000000000000000000''"
              length_digest certificateData_example]
  by simp

section \<open>Properties of anchoring followed by verification\<close>

lemma startsWith0x_hexlify: "startsWith0x (hexlify bs)"
  by (simp add: startsWith0x_def hexlify_def)

lemma POST_store_ok:
  assumes "status (POST_store kec send
             (json_request (JStr k) (JObj R))) = 200"
  shows "k \<noteq> [] \<and> (\<exists>tx. send (JStr k) (generateCertificateHash kec R) = Inr tx)"
  using assms
  by (cases "send (JStr k) (generateCertificateHash kec R)")
     (auto simp: POST_store_def json_request_def getprop_def storeCertificateOnBlockchain_def failure_def Let_def
                 generateCertificateHash_def keccak256_def startsWith0x_hexlify
           split: if_splits)

lemma POST_store_sent:
  assumes "k \<noteq> []" and "send (JStr k) (generateCertificateHash kec R) = Inr tx"
  shows "POST_store kec send (json_request (JStr k) (JObj R)) =
           \<lparr>status = 200, success = True,
            message = ''Certificate stored on blockchain successfully'',
            data = Some \<lparr>certificateHash_d = generateCertificateHash kec R,
                         transactionHash_d = Some tx\<rparr>\<rparr>"
proof -
  have "startsWith0x (generateCertificateHash kec R)"
    by (simp add: generateCertificateHash_def keccak256_def startsWith0x_hexlify)
  with assms show ?thesis
    by (simp add: POST_store_def json_request_def getprop_def storeCertificateOnBlockchain_def Let_def)
qed

text \<open>
  Claim C1. Let the store handler succeed for key \<open>k\<close> and record \<open>R\<close>. Then the key is
  not empty, the ledger was sent exactly the fingerprint derived from \<open>R\<close>, and the handler
  reports that fingerprint. If the ledger then holds this record for \<open>k\<close>, that is its
  query returns the stored fingerprint, which is not the all-zero hash that stands for an
  absent record, the match handler called with \<open>k\<close> and \<open>R\<close> answers
  \<^verbatim>\<open>verified: true\<close>, \<^verbatim>\<open>hashMatch: true\<close>, with the local and the ledger fingerprint both equal
  to the stored one.
\<close>

theorem anchor_then_verifyMatches:
  assumes "status (POST_store kec send
             (json_request (JStr k) (JObj R))) = 200"
    and "call (JStr k) = Inr (generateCertificateHash kec R, ts, iss)"
    and "generateCertificateHash kec R \<noteq> ZeroHash"
  shows "(\<exists>tx. send (JStr k) (generateCertificateHash kec R) = Inr tx \<and>
            data (POST_store kec send
                    (json_request (JStr k) (JObj R))) =
              Some \<lparr>certificateHash_d = generateCertificateHash kec R,
                    transactionHash_d = Some tx\<rparr>) \<and>
         POST_verify kec call (json_request (JStr k) (JObj R)) =
           \<lparr>status = 200, success = True, message = ''Certificate verified and hash matches'',
            data = Some \<lparr>verified_d = True, hashMatch = True,
                         localHash = Some (generateCertificateHash kec R),
                         blockchainHash_d = Some (generateCertificateHash kec R),
                         timestamp_d = Some ts, issuer_d = Some iss\<rparr>\<rparr>"
proof -
  from POST_store_ok [OF assms(1)] obtain tx
    where k: "k \<noteq> []" and tx: "send (JStr k) (generateCertificateHash kec R) = Inr tx"
    by blast
  from POST_store_sent [of k send kec R tx] k tx
  have "\<exists>tx. send (JStr k) (generateCertificateHash kec R) = Inr tx \<and>
            data (POST_store kec send
                    (json_request (JStr k) (JObj R))) =
              Some \<lparr>certificateHash_d = generateCertificateHash kec R,
                    transactionHash_d = Some tx\<rparr>"
    by simp
  moreover from k assms(2,3)
  have "POST_verify kec call (json_request (JStr k) (JObj R)) =
           \<lparr>status = 200, success = True, message = ''Certificate verified and hash matches'',
            data = Some \<lparr>verified_d = True, hashMatch = True,
                         localHash = Some (generateCertificateHash kec R),
                         blockchainHash_d = Some (generateCertificateHash kec R),
                         timestamp_d = Some ts, issuer_d = Some iss\<rparr>\<rparr>"
    by (simp add: POST_verify_def json_request_def getprop_def verifyCertificateOnBlockchain_def Let_def)
  ultimately show ?thesis by blast
qed

theorem anchor_then_verifyMatches_witness:
  "POST_verify length_digest
     (\<lambda>k. Inr (generateCertificateHash length_digest certificateData_example, 1736899200,
               ''0x00000000000000000000000000000000000000a1''))
     (json_request (JStr ''CERT-2025-ABC123'') (JObj certificateData_example)) =
   \<lparr>status = 200, success = True, message = ''Certificate verified and hash matches'',
    data = Some \<lparr>verified_d = True, hashMatch = True,
                 localHash = Some (generateCertificateHash length_digest certificateData_example),
                 blockchainHash_d =
                   Some (generateCertificateHash length_digest certificateData_example),
                 timestamp_d = Some 1736899200,
                 issuer_d = Some ''0x00000000000000000000000000000000000000a1''\<rparr>\<rparr>"
proof -
  have a: "status (POST_store length_digest (\<lambda>k h. Inr ''0x7a'')
             (json_request (JStr ''CERT-2025-ABC123'') (JObj certificateData_example))) = 200"
    by (simp add: POST_store_sent)
  have c: "generateCertificateHash length_digest certificateData_example \<noteq> ZeroHash"
    by code_simp
  from anchor_then_verifyMatches
         [of length_digest "\<lambda>k h. Inr ''0x7a''" "''CERT-2025-ABC123''"
             certificateData_example
             "\<lambda>k. Inr (generateCertificateHash length_digest certificateData_example,
                       1736899200, ''0x00000000000000000000000000000000000000a1'')"
             1736899200 "''0x00000000000000000000000000000000000000a1''"]
       a c
  show ?thesis by simp
qed

section \<open>Properties of the fingerprint comparison\<close>

lemma hex_digit_inj:
  assumes "a < 16" and "b < 16" and "hex_digit a = hex_digit b"
  shows "a = b"
proof -
  have d: "distinct ''0123456789abcdef''" by simp
  have "a < length ''0123456789abcdef''" "b < length ''0123456789abcdef''"
    using assms by simp_all
  with d assms(3) show ?thesis
    unfolding hex_digit_def using assms(1,2) by (simp add: nth_eq_iff_index_eq)
qed

lemma byte_digits_inj:
  fixes v w :: byte
  assumes "hex_digit (unat v div 16) = hex_digit (unat w div 16)"
    and "hex_digit (unat v mod 16) = hex_digit (unat w mod 16)"
  shows "v = w"
proof -
  have "unat v < 256" "unat w < 256"
    using unsigned_less [of v, where 'a = nat] unsigned_less [of w, where 'a = nat]
    by simp_all
  then have "unat v div 16 < 16" "unat w div 16 < 16" by simp_all
  then have q: "unat v div 16 = unat w div 16" using assms(1) by (rule hex_digit_inj)
  have "unat v mod 16 = unat w mod 16"
    by (rule hex_digit_inj [OF _ _ assms(2)]) simp_all
  with q have "unat v = unat w" by (metis div_mult_mod_eq)
  then show ?thesis by (simp add: word_unat_eq_iff)
qed

lemma hexlify_inj: "hexlify a = hexlify b \<Longrightarrow> a = b"
proof (induction a arbitrary: b)
  case Nil
  then show ?case by (cases b) (simp_all add: hexlify_def)
next
  case (Cons x xs)
  then obtain y ys where b: "b = y # ys" by (cases b) (auto simp: hexlify_def)
  from Cons.prems b have "x = y" and "hexlify xs = hexlify ys"
    by (auto simp: hexlify_def intro: byte_digits_inj)
  with Cons.IH b show ?case by simp
qed

lemma POST_verify_present:
  assumes "k \<noteq> []" and "call (JStr k) = Inr (h, ts, iss)" and "h \<noteq> ZeroHash"
  shows "POST_verify kec call (json_request (JStr k) (JObj R)) =
           \<lparr>status = 200, success = True,
            message = (if generateCertificateHash kec R = h
                       then ''Certificate verified and hash matches''
                       else ''Certificate found but hash mismatch''),
            data = Some \<lparr>verified_d = True, hashMatch = (generateCertificateHash kec R = h),
                         localHash = Some (generateCertificateHash kec R),
                         blockchainHash_d = Some h, timestamp_d = Some ts,
                         issuer_d = Some iss\<rparr>\<rparr>"
  using assms by (simp add: POST_verify_def json_request_def getprop_def verifyCertificateOnBlockchain_def Let_def)






section \<open>Properties of the store handler's errors\<close>

text \<open>
  Claim C7, as stated, fails. The record below has no \<^verbatim>\<open>recipientName\<close> (nor any field but
  the first), the key is present, and the handler does not answer 400: it derives a
  fingerprint, sends it to the ledger and answers 200.
\<close>

theorem POST_store_missing_field_counterexample:
  "getprop [(''certificateNumber'', JStr ''CERT-2025-ABC123'')] ''recipientName'' = JUndefined \<and>
   status (POST_store length_digest send_accepting
             (json_request (JStr ''CERT-2025-ABC123'')
                (JObj [(''certificateNumber'', JStr ''CERT-2025-ABC123'')]))) = 200"
  by code_simp

text \<open>A body that is \<^verbatim>\<open>null\<close> makes the destructuring throw, which the handler answers by 500.\<close>

lemma POST_store_null_body:
  "POST_store kec send (Inr JNull) = failure 500 (destructure_message JNull)"
  by (simp add: POST_store_def destructure_message_def or_else_def)

text \<open>
  Claim C7, amended. For a parsed request body other than \<^verbatim>\<open>null\<close>, the store handler
  answers 400 exactly when the body's \<^verbatim>\<open>certificateNumber\<close> or its \<^verbatim>\<open>certificateData\<close> is
  absent or falsy (\<^verbatim>\<open>null\<close>, \<^verbatim>\<open>false\<close>, \<^verbatim>\<open>0\<close>, \<^verbatim>\<open>NaN\<close> or the empty string); the
  fields inside the record are not inspected. The 400 answer is the same whatever the
  ledger would do, so the ledger is not contacted. When both are truthy, a write that
  throws is answered by 500 with the thrown message, or with the default text when that
  message is empty.
\<close>

theorem POST_store_errors:
  assumes "body \<noteq> JNull" and "body \<noteq> JUndefined"
  shows
  "(status (POST_store kec send (Inr body)) = 400 \<longleftrightarrow>
      \<not> truthy (getprop (own_properties body) ''certificateNumber'') \<or>
      \<not> truthy (getprop (own_properties body) ''certificateData'')) \<and>
   (status (POST_store kec send (Inr body)) = 400 \<longrightarrow>
      POST_store kec send' (Inr body) = failure 400 ''Certificate number and data are required'') \<and>
   (truthy (getprop (own_properties body) ''certificateNumber'') \<and>
    truthy (getprop (own_properties body) ''certificateData'') \<and>
    send (getprop (own_properties body) ''certificateNumber'')
         (generateCertificateHash kec
            (own_properties (getprop (own_properties body) ''certificateData''))) = Inl e \<longrightarrow>
      POST_store kec send (Inr body) =
        failure 500 (or_else e ''Failed to store certificate on blockchain'') \<and>
      (e \<noteq> [] \<longrightarrow> message (POST_store kec send (Inr body)) = e))"
proof -
  have h: "startsWith0x (generateCertificateHash kec x)" for x
    by (simp add: generateCertificateHash_def keccak256_def startsWith0x_def hexlify_def)
  from assms show ?thesis
    by (auto simp: POST_store_def storeCertificateOnBlockchain_def failure_def Let_def h
                   or_else_def opt_string_def
             split: sum.splits)
qed

theorem POST_store_errors_witness:
  "status (POST_store length_digest send_accepting
             (Inr (JObj [(''certificateData'', JObj certificateData_example)]))) = 400 \<and>
   POST_store length_digest (send_failing ''insufficient funds'')
     (Inr (JObj [(''certificateNumber'', JNum (Finite 0)),
                 (''certificateData'', JObj certificateData_example)])) =
     failure 400 ''Certificate number and data are required'' \<and>
   status (POST_store length_digest send_accepting (Inr (JArr []))) = 400 \<and>
   POST_store length_digest (send_failing ''insufficient funds'')
     (json_request (JStr ''CERT-2025-ABC123'') (JObj certificateData_example)) =
     failure 500 ''insufficient funds''"
proof -
  have a: "status (POST_store length_digest send_accepting
             (Inr (JObj [(''certificateData'', JObj certificateData_example)]))) = 400"
    using POST_store_errors
            [of "JObj [(''certificateData'', JObj certificateData_example)]"
                length_digest send_accepting send_accepting]
    by (simp add: getprop_def)
  have b: "POST_store length_digest (send_failing ''insufficient funds'')
     (Inr (JObj [(''certificateNumber'', JNum (Finite 0)),
                 (''certificateData'', JObj certificateData_example)])) =
     failure 400 ''Certificate number and data are required''"
    using POST_store_errors
            [of "JObj [(''certificateNumber'', JNum (Finite 0)),
                       (''certificateData'', JObj certificateData_example)]"
                length_digest send_accepting "send_failing ''insufficient funds''"]
    by (simp add: getprop_def)
  have c: "status (POST_store length_digest send_accepting (Inr (JArr []))) = 400"
    using POST_store_errors [of "JArr []" length_digest send_accepting send_accepting]
    by (simp add: getprop_def)
  have d: "POST_store length_digest (send_failing ''insufficient funds'')
     (json_request (JStr ''CERT-2025-ABC123'') (JObj certificateData_example)) =
     failure 500 ''insufficient funds''"
    using POST_store_errors
            [of "JObj [(''certificateNumber'', JStr ''CERT-2025-ABC123''),
                       (''certificateData'', JObj certificateData_example)]"
                length_digest "send_failing ''insufficient funds''" send_accepting
                "''insufficient funds''"]
    by (simp add: getprop_def json_request_def send_failing_def or_else_def)
  from a b c d show ?thesis by simp
qed

section \<open>The canonical string determines the fields\<close>

lemma escape_char_cases:
  "(escape_char c = [c] \<and> c \<noteq> CHR 0x22 \<and> c \<noteq> CHR 0x5C) \<or>
   (\<exists>x. escape_char c = [CHR 0x5C, x] \<and> x \<noteq> CHR ''u'') \<or>
   (escape_char c = [CHR 0x5C, CHR ''u'', CHR ''0'', CHR ''0'',
                     hex_digit (of_char c div 16), hex_digit (of_char c mod 16)] \<and>
    of_char c < (32::nat))"
  by (simp add: escape_char_def)

lemma escape_two_inj:
  assumes "escape_char c = [CHR 0x5C, x]" and "escape_char d = [CHR 0x5C, x]"
  shows "c = d"
  using assms by (auto simp: escape_char_def split: if_splits)

lemma escape_u_inj:
  assumes "of_char c < (32::nat)" and "of_char d < (32::nat)"
    and "hex_digit (of_char c div 16) = hex_digit (of_char d div 16)"
    and "hex_digit (of_char c mod 16) = hex_digit (of_char d mod 16)"
  shows "c = d"
proof -
  have "of_char c div 16 < (16::nat)" "of_char d div 16 < (16::nat)" using assms(1,2) by simp_all
  then have q: "(of_char c :: nat) div 16 = of_char d div 16"
    using assms(3) by (rule hex_digit_inj)
  have "(of_char c :: nat) mod 16 = of_char d mod 16"
    by (rule hex_digit_inj [OF _ _ assms(4)]) simp_all
  with q have "(of_char c :: nat) = of_char d" by (metis div_mult_mod_eq)
  then show ?thesis by simp
qed

lemma escape_char_prefix_free:
  assumes "escape_char c @ x = escape_char d @ y"
  shows "c = d \<and> x = y"
proof -
  consider (plain) "escape_char c = [c]" "c \<noteq> CHR 0x22" "c \<noteq> CHR 0x5C"
    | (two) e where "escape_char c = [CHR 0x5C, e]" "e \<noteq> CHR ''u''"
    | (uni) "escape_char c = [CHR 0x5C, CHR ''u'', CHR ''0'', CHR ''0'',
                              hex_digit (of_char c div 16), hex_digit (of_char c mod 16)]"
            "of_char c < (32::nat)"
    using escape_char_cases [of c] by blast
  then show ?thesis
  proof cases
    case plain
    from escape_char_cases [of d] plain assms show ?thesis by auto
  next
    case two
    from escape_char_cases [of d] two assms
    have "escape_char d = [CHR 0x5C, e]" and "x = y" by auto
    with two(1) escape_two_inj [of c e d] show ?thesis by simp
  next
    case uni
    from escape_char_cases [of d] uni assms
    have "of_char d < (32::nat)"
      and "hex_digit (of_char c div 16) = hex_digit (of_char d div 16)"
      and "hex_digit (of_char c mod 16) = hex_digit (of_char d mod 16)"
      and "x = y" by auto
    with uni(2) escape_u_inj [of c d] show ?thesis by simp
  qed
qed

lemma escape_char_not_quote: "escape_char c @ x \<noteq> CHR 0x22 # y"
  using escape_char_cases [of c] by auto

lemma escaped_prefix_free:
  "concat (map escape_char s) @ CHR 0x22 # x = concat (map escape_char t) @ CHR 0x22 # y \<Longrightarrow>
   s = t \<and> x = y"
proof (induction s arbitrary: t)
  case Nil
  show ?case
  proof (cases t)
    case Nil
    with Nil.prems show ?thesis by simp
  next
    case (Cons d t')
    with Nil.prems have
      "escape_char d @ (concat (map escape_char t') @ CHR 0x22 # y) = CHR 0x22 # x"
      by simp
    with escape_char_not_quote show ?thesis by blast
  qed
next
  case (Cons c s)
  show ?case
  proof (cases t)
    case Nil
    with Cons.prems have
      "escape_char c @ (concat (map escape_char s) @ CHR 0x22 # x) = CHR 0x22 # y"
      by simp
    with escape_char_not_quote show ?thesis by blast
  next
    case (Cons d t')
    with Cons.prems have
      "escape_char c @ (concat (map escape_char s) @ CHR 0x22 # x) =
       escape_char d @ (concat (map escape_char t') @ CHR 0x22 # y)"
      by simp
    then have "c = d" and "concat (map escape_char s) @ CHR 0x22 # x =
                            concat (map escape_char t') @ CHR 0x22 # y"
      using escape_char_prefix_free by blast+
    with Cons.IH Cons show ?thesis by blast
  qed
qed

lemma quote_prefix_free:
  assumes "quote s @ x = quote t @ y"
  shows "s = t \<and> x = y"
proof -
  from assms have "concat (map escape_char s) @ CHR 0x22 # x =
                   concat (map escape_char t) @ CHR 0x22 # y"
    by (simp add: quote_def)
  then show ?thesis by (rule escaped_prefix_free)
qed

lemma digit_char:
  assumes "n < 10"
  shows "of_char (hex_digit n) = 48 + n"
proof -
  from assms have "n \<in> {0, 1, 2, 3, 4, 5, 6, 7, 8, 9}" by auto
  then show ?thesis by (auto simp: hex_digit_def)
qed

lemma read_nat_append: "read_nat a (xs @ ys) = read_nat (read_nat a xs) ys"
  by (induction xs arbitrary: a) simp_all

lemma read_show_nat: "read_nat 0 (show_nat n) = n"
proof (induction n rule: show_nat.induct)
  case (1 n)
  show ?case
  proof (cases "n < 10")
    case True
    then show ?thesis by (subst show_nat.simps) (simp add: digit_char)
  next
    case False
    have "n mod 10 < 10" by simp
    with False 1 show ?thesis
      by (subst show_nat.simps) (simp add: read_nat_append digit_char)
  qed
qed

lemma show_nat_inj: "show_nat n = show_nat m \<Longrightarrow> n = m"
  by (metis read_show_nat)

lemma show_nat_digits: "c \<in> set (show_nat n) \<Longrightarrow> 48 \<le> (of_char c :: nat)"
proof (induction n rule: show_nat.induct)
  case (1 n)
  show ?case
  proof (cases "n < 10")
    case True
    with "1.prems" show ?thesis by (subst (asm) show_nat.simps) (auto simp: digit_char)
  next
    case False
    have "n mod 10 < 10" by simp
    with False 1 show ?thesis
      by (subst (asm) show_nat.simps) (auto simp: digit_char)
  qed
qed

lemma show_nat_no_minus: "show_nat n \<noteq> CHR ''-'' # xs"
proof
  assume "show_nat n = CHR ''-'' # xs"
  then have "CHR ''-'' \<in> set (show_nat n)" by simp
  from show_nat_digits [OF this] show False by simp
qed

lemma show_int_inj:
  assumes "show_int i = show_int j"
  shows "i = j"
proof (cases "i < 0"; cases "j < 0")
  assume "i < 0" "j < 0"
  with assms have "nat (- i) = nat (- j)" by (auto simp: show_int_def dest: show_nat_inj)
  with \<open>i < 0\<close> \<open>j < 0\<close> show ?thesis by simp
next
  assume "i < 0" "\<not> j < 0"
  with assms show_nat_no_minus [of "nat j"] show ?thesis
    by (auto simp: show_int_def dest: sym)
next
  assume "\<not> i < 0" "j < 0"
  with assms show_nat_no_minus [of "nat i"] show ?thesis
    by (auto simp: show_int_def)
next
  assume "\<not> i < 0" "\<not> j < 0"
  with assms have "nat i = nat j" by (auto simp: show_int_def dest: show_nat_inj)
  with \<open>\<not> i < 0\<close> \<open>\<not> j < 0\<close> show ?thesis by simp
qed

lemma is_string_E: "is_string v \<Longrightarrow> \<exists>s. v = JStr s"
  by (cases v) simp_all

lemma is_safe_integer_E: "is_safe_integer v \<Longrightarrow> \<exists>i. v = JNum (Finite i)"
proof (cases v)
  case (JNum n)
  assume "is_safe_integer v"
  with JNum show ?thesis by (cases n) simp_all
qed simp_all

lemma dataString_typed:
  assumes "getprop A ''certificateNumber'' = JStr s1"
    and "getprop A ''recipientName'' = JStr s2"
    and "getprop A ''certificateType'' = JStr s3"
    and "getprop A ''issueDate'' = JStr s4"
    and "getprop A ''issuingEntityId'' = JNum (Finite i)"
  shows "dataString A =
           ''{'' @ quote ''certificateNumber'' @ '':'' @ quote s1 @ '','' @
           quote ''recipientName'' @ '':'' @ quote s2 @ '','' @
           quote ''certificateType'' @ '':'' @ quote s3 @ '','' @
           quote ''issueDate'' @ '':'' @ quote s4 @ '','' @
           quote ''issuingEntityId'' @ '':'' @ show_int i @ ''}''"
  using assms by (simp add: dataString_def JSON_stringify_def)

lemma canonical_inj:
  assumes "''{'' @ quote ''certificateNumber'' @ '':'' @ quote s1 @ '','' @
           quote ''recipientName'' @ '':'' @ quote s2 @ '','' @
           quote ''certificateType'' @ '':'' @ quote s3 @ '','' @
           quote ''issueDate'' @ '':'' @ quote s4 @ '','' @
           quote ''issuingEntityId'' @ '':'' @ show_int i @ ''}'' =
           ''{'' @ quote ''certificateNumber'' @ '':'' @ quote t1 @ '','' @
           quote ''recipientName'' @ '':'' @ quote t2 @ '','' @
           quote ''certificateType'' @ '':'' @ quote t3 @ '','' @
           quote ''issueDate'' @ '':'' @ quote t4 @ '','' @
           quote ''issuingEntityId'' @ '':'' @ show_int j @ ''}''"
  shows "s1 = t1 \<and> s2 = t2 \<and> s3 = t3 \<and> s4 = t4 \<and> i = j"
proof -
  from assms have
    "quote s1 @ ('','' @ quote ''recipientName'' @ '':'' @ quote s2 @ '','' @
       quote ''certificateType'' @ '':'' @ quote s3 @ '','' @
       quote ''issueDate'' @ '':'' @ quote s4 @ '','' @
       quote ''issuingEntityId'' @ '':'' @ show_int i @ ''}'') =
     quote t1 @ ('','' @ quote ''recipientName'' @ '':'' @ quote t2 @ '','' @
       quote ''certificateType'' @ '':'' @ quote t3 @ '','' @
       quote ''issueDate'' @ '':'' @ quote t4 @ '','' @
       quote ''issuingEntityId'' @ '':'' @ show_int j @ ''}'')"
    by simp
  from quote_prefix_free [OF this] have 1: "s1 = t1" and
    "quote s2 @ ('','' @ quote ''certificateType'' @ '':'' @ quote s3 @ '','' @
       quote ''issueDate'' @ '':'' @ quote s4 @ '','' @
       quote ''issuingEntityId'' @ '':'' @ show_int i @ ''}'') =
     quote t2 @ ('','' @ quote ''certificateType'' @ '':'' @ quote t3 @ '','' @
       quote ''issueDate'' @ '':'' @ quote t4 @ '','' @
       quote ''issuingEntityId'' @ '':'' @ show_int j @ ''}'')"
    by simp_all
  from quote_prefix_free [OF this(2)] have 2: "s2 = t2" and
    "quote s3 @ ('','' @ quote ''issueDate'' @ '':'' @ quote s4 @ '','' @
       quote ''issuingEntityId'' @ '':'' @ show_int i @ ''}'') =
     quote t3 @ ('','' @ quote ''issueDate'' @ '':'' @ quote t4 @ '','' @
       quote ''issuingEntityId'' @ '':'' @ show_int j @ ''}'')"
    by simp_all
  from quote_prefix_free [OF this(2)] have 3: "s3 = t3" and
    "quote s4 @ ('','' @ quote ''issuingEntityId'' @ '':'' @ show_int i @ ''}'') =
     quote t4 @ ('','' @ quote ''issuingEntityId'' @ '':'' @ show_int j @ ''}'')"
    by simp_all
  from quote_prefix_free [OF this(2)] have 4: "s4 = t4" and
    "show_int i @ ''}'' = show_int j @ ''}''"
    by simp_all
  then have "show_int i = show_int j" by simp
  then have "i = j" by (rule show_int_inj)
  with 1 2 3 4 show ?thesis by simp
qed

lemma dataString_inj:
  assumes "typed_record A" and "typed_record B" and "dataString A = dataString B"
  shows "same_fields A B"
proof -
  from assms(1) obtain s1 s2 s3 s4 i where
    A: "getprop A ''certificateNumber'' = JStr s1" "getprop A ''recipientName'' = JStr s2"
       "getprop A ''certificateType'' = JStr s3" "getprop A ''issueDate'' = JStr s4"
       "getprop A ''issuingEntityId'' = JNum (Finite i)"
    unfolding typed_record_def by (meson is_string_E is_safe_integer_E)
  from assms(2) obtain t1 t2 t3 t4 j where
    B: "getprop B ''certificateNumber'' = JStr t1" "getprop B ''recipientName'' = JStr t2"
       "getprop B ''certificateType'' = JStr t3" "getprop B ''issueDate'' = JStr t4"
       "getprop B ''issuingEntityId'' = JNum (Finite j)"
    unfolding typed_record_def by (meson is_string_E is_safe_integer_E)
  from assms(3) have "s1 = t1 \<and> s2 = t2 \<and> s3 = t3 \<and> s4 = t4 \<and> i = j"
    unfolding dataString_typed [OF A] dataString_typed [OF B] by (rule canonical_inj)
  with A B show ?thesis by (simp add: same_fields_def)
qed

lemma toUtf8Bytes_inj:
  assumes "toUtf8Bytes s = toUtf8Bytes t"
  shows "s = t"
proof -
  have "inj (\<lambda>c. of_nat (of_char c) :: byte)"
  proof (rule injI)
    fix c d :: char
    assume "(of_nat (of_char c) :: byte) = of_nat (of_char d)"
    then have "unat (of_nat (of_char c) :: byte) = unat (of_nat (of_char d) :: byte)" by simp
    then have "(of_char c :: nat) mod 256 = of_char d mod 256" by (simp add: unat_of_nat)
    then show "c = d" by simp
  qed
  with assms show ?thesis by (simp add: toUtf8Bytes_def inj_map_eq_map)
qed

section \<open>Properties of tamper detection\<close>

lemma dataString_nonfinite:
  "dataString (with_entity PosInfinity) = dataString (with_entity NegInfinity)"
  by (simp add: dataString_def JSON_stringify_def with_entity_def getprop_def)

text \<open>
  Claim C3, as stated, fails. \<^verbatim>\<open>JSON.stringify\<close> writes every number that is not finite
  as \<^verbatim>\<open>null\<close>, so the record with \<^verbatim>\<open>issuingEntityId\<close> \<open>Infinity\<close> (which \<^verbatim>\<open>1e999\<close> in a
  request body parses to) and the record with \<open>-Infinity\<close> differ in that field and have
  the same canonical string, hence the same fingerprint under any digest function. After
  the first is anchored, verifying the second answers \<^verbatim>\<open>hashMatch: true\<close>.
\<close>

theorem tamper_nonfinite_counterexample:
  "getprop (with_entity NegInfinity) ''issuingEntityId'' \<noteq>
     getprop (with_entity PosInfinity) ''issuingEntityId'' \<and>
   status (POST_store length_digest send_accepting
             (json_request (JStr ''CERT-2025-ABC123'') (JObj (with_entity PosInfinity)))) = 200 \<and>
   data (POST_verify length_digest
           (ledger_holding (generateCertificateHash length_digest (with_entity PosInfinity)))
           (json_request (JStr ''CERT-2025-ABC123'') (JObj (with_entity NegInfinity)))) =
     Some \<lparr>verified_d = True, hashMatch = True,
           localHash = Some ''0xababababababababababababababababababababababababababababababab93'',
           blockchainHash_d = Some ''0xababababababababababababababababababababababababababababababab93'',
           timestamp_d = Some 1736899200,
           issuer_d = Some ''0x00000000000000000000000000000000000000a1''\<rparr>"
proof -
  have f: "getprop (with_entity NegInfinity) ''issuingEntityId'' \<noteq>
             getprop (with_entity PosInfinity) ''issuingEntityId''"
    by (simp add: getprop_def with_entity_def)
  have s: "status (POST_store length_digest send_accepting
             (json_request (JStr ''CERT-2025-ABC123'') (JObj (with_entity PosInfinity)))) = 200"
    by (simp add: POST_store_sent send_accepting_def)
  have l: "generateCertificateHash length_digest (with_entity PosInfinity) =
             ''0xababababababababababababababababababababababababababababababab93''"
    by code_simp
  have e: "generateCertificateHash length_digest (with_entity NegInfinity) =
             generateCertificateHash length_digest (with_entity PosInfinity)"
    by (simp add: generateCertificateHash_def dataString_nonfinite)
  have z: "''0xababababababababababababababababababababababababababababababab93'' \<noteq> ZeroHash"
    by code_simp
  have c: "ledger_holding ''0xababababababababababababababababababababababababababababababab93'' (JStr ''CERT-2025-ABC123'') =
             Inr (''0xababababababababababababababababababababababababababababababab93'', 1736899200, ''0x00000000000000000000000000000000000000a1'')"
    by (simp add: ledger_holding_def)
  have k: "''CERT-2025-ABC123'' \<noteq> []" by simp
  note p = POST_verify_present
             [where k = "''CERT-2025-ABC123''" and call = "ledger_holding ''0xababababababababababababababababababababababababababababababab93''"
                and h = "''0xababababababababababababababababababababababababababababababab93''" and ts = 1736899200
                and iss = "''0x00000000000000000000000000000000000000a1''", OF k c z]
  show ?thesis using f s by (simp add: l e p)
qed

text \<open>
  Claim C3, amended. Let \<open>R\<close> and \<open>R'\<close> both carry four strings and a safe integer in the
  five fields, and differ in at least one of them. Then their canonical strings differ.
  If moreover the digest function does not collide on these two strings, the key is not
  empty and the ledger holds the fingerprint of \<open>R\<close> for it (a fingerprint other than the
  all-zero hash), then the match handler called with \<open>R'\<close> answers \<^verbatim>\<open>verified: true\<close>,
  \<^verbatim>\<open>hashMatch: false\<close>.
\<close>

theorem tamper_detection:
  assumes "typed_record R" and "typed_record R'" and "\<not> same_fields R' R"
    and "kec (toUtf8Bytes (dataString R')) = kec (toUtf8Bytes (dataString R)) \<longrightarrow>
           dataString R' = dataString R"
    and "k \<noteq> []" and "call (JStr k) = Inr (generateCertificateHash kec R, ts, iss)"
    and "generateCertificateHash kec R \<noteq> ZeroHash"
  shows "dataString R' \<noteq> dataString R \<and>
         POST_verify kec call
           (json_request (JStr k) (JObj R')) =
           \<lparr>status = 200, success = True, message = ''Certificate found but hash mismatch'',
            data = Some \<lparr>verified_d = True, hashMatch = False,
                         localHash = Some (generateCertificateHash kec R'),
                         blockchainHash_d = Some (generateCertificateHash kec R),
                         timestamp_d = Some ts, issuer_d = Some iss\<rparr>\<rparr>"
proof -
  have d: "dataString R' \<noteq> dataString R"
    using dataString_inj [OF assms(2) assms(1)] assms(3) by blast
  with assms(4) have "kec (toUtf8Bytes (dataString R')) \<noteq> kec (toUtf8Bytes (dataString R))"
    by blast
  then have "generateCertificateHash kec R' \<noteq> generateCertificateHash kec R"
    unfolding generateCertificateHash_def keccak256_def by (blast dest: hexlify_inj)
  with d show ?thesis
    by (simp add: POST_verify_present [of k call "generateCertificateHash kec R" ts iss kec R']
                  assms(5,6,7))
qed

theorem tamper_detection_witness:
  "dataString (with_entity (Finite 25)) \<noteq> dataString (with_entity (Finite 1)) \<and>
   POST_verify length_digest
     (ledger_holding (generateCertificateHash length_digest (with_entity (Finite 1))))
     (json_request (JStr ''CERT-2025-ABC123'') (JObj (with_entity (Finite 25)))) =
     \<lparr>status = 200, success = True, message = ''Certificate found but hash mismatch'',
      data = Some \<lparr>verified_d = True, hashMatch = False,
                   localHash = Some (generateCertificateHash length_digest
                                       (with_entity (Finite 25))),
                   blockchainHash_d = Some (generateCertificateHash length_digest
                                              (with_entity (Finite 1))),
                   timestamp_d = Some 1736899200,
                   issuer_d = Some ''0x00000000000000000000000000000000000000a1''\<rparr>\<rparr>"
proof -
  have t1: "typed_record (with_entity (Finite 1))"
    by (simp add: typed_record_def getprop_def with_entity_def)
  have t2: "typed_record (with_entity (Finite 25))"
    by (simp add: typed_record_def getprop_def with_entity_def)
  have nf: "\<not> same_fields (with_entity (Finite 25)) (with_entity (Finite 1))"
    by (simp add: same_fields_def getprop_def with_entity_def)
  have ne: "length_digest (toUtf8Bytes (dataString (with_entity (Finite 25)))) \<noteq>
            length_digest (toUtf8Bytes (dataString (with_entity (Finite 1))))"
    by code_simp
  then have nc: "length_digest (toUtf8Bytes (dataString (with_entity (Finite 25)))) =
                 length_digest (toUtf8Bytes (dataString (with_entity (Finite 1)))) \<longrightarrow>
                 dataString (with_entity (Finite 25)) = dataString (with_entity (Finite 1))"
    by simp
  have k: "''CERT-2025-ABC123'' \<noteq> []" by simp
  have c: "ledger_holding (generateCertificateHash length_digest (with_entity (Finite 1)))
             (JStr ''CERT-2025-ABC123'') =
           Inr (generateCertificateHash length_digest (with_entity (Finite 1)), 1736899200,
                ''0x00000000000000000000000000000000000000a1'')"
    by (simp add: ledger_holding_def)
  have z: "generateCertificateHash length_digest (with_entity (Finite 1)) \<noteq> ZeroHash"
    by code_simp
  show ?thesis
    by (rule tamper_detection
               [of "with_entity (Finite 1)" "with_entity (Finite 25)" length_digest
                   "''CERT-2025-ABC123''"
                   "ledger_holding (generateCertificateHash length_digest
                                      (with_entity (Finite 1)))"
                   1736899200 "''0x00000000000000000000000000000000000000a1''",
                OF t1 t2 nf nc k c z])
qed

end
